theory Spec2Isabelle
  imports Main "HOL-Library.Sublist"
begin

section \<open>Data model of \<open>src/src/Fetcher.ts\<close>\<close>

text \<open>
  The parsed body of a response (\<open>data: any\<close>) is a JSON value. Numbers are kept as
  integers: no operation of the client computes with them.
\<close>

datatype json_value =
    JNull
  | JBool bool
  | JNum int
  | JStr string
  | JArr "json_value list"
  | JObj "(string \<times> json_value) list"

text \<open>
  A plain object of headers (\<open>Record<string, string>\<close>) is a finite map from the exact key
  string to the value. An object has at most one entry per key string, and two key strings
  that differ in letter case are two keys.
\<close>

type_synonym header_record = "string \<rightharpoonup> string"

text \<open>
  \<open>RequestInit.headers\<close> has the type \<open>HeadersInit\<close>: a plain object, a \<open>Headers\<close>
  instance (given by the name and value pairs it holds), or an array of \<open>[name, value]\<close>
  pairs. The casts \<open>as Record<string, string>\<close> of lines 97-98 are erased when the file is
  compiled, so each of the three can reach the spreads.
\<close>

datatype headers_init =
    HeadersRecord header_record
  | HeadersInstance "(string \<times> string) list"
  | HeadersPairs "(string \<times> string) list"

text \<open>The \<open>Headers\<close> of a response are only passed through.\<close>

type_synonym response_headers = "(string \<times> string) list"

text \<open>
  \<open>RequestInit\<close>: a field that is absent, or present with the value \<open>undefined\<close>, is
  \<open>None\<close>. The field \<open>method\<close> is written \<open>http_method\<close>. The transport options the client
  never reads itself (credentials, mode, cache, ...) are collected in \<open>other\<close>.
\<close>

record request_init =
  http_method :: "string option"
  headers :: "headers_init option"
  body :: "string option"
  other :: "string \<rightharpoonup> string"

text \<open>
  Thrown values. \<open>FetcherError message status data headers\<close> is an instance of the class
  \<open>FetcherError\<close> (lines 28-39; \<open>data\<close> and \<open>headers\<close> are optional there);
  \<open>NativeError message\<close> is any other \<open>Error\<close>.
\<close>

datatype js_error =
    FetcherError string int "json_value option" "response_headers option"
  | NativeError string

text \<open>
  The \<open>Response\<close> of the transport, with the fields the client reads. \<open>json\<close> is the
  result of \<open>res.json()\<close>: \<open>Inl\<close> when the promise rejects (the body is not JSON),
  \<open>Inr\<close> the parsed body otherwise.
\<close>

record response =
  ok :: bool
  status :: int
  statusText :: string
  res_headers :: response_headers
  json :: "js_error + json_value"

text \<open>
  \<open>FetcherResponse\<close> (lines 16-20), the success envelope \<open>{data, status, headers}\<close>.
  The fields \<open>status\<close> and \<open>headers\<close> are written \<open>env_status\<close> and \<open>env_headers\<close> here.
\<close>

record fetcher_response =
  data :: json_value
  env_status :: int
  env_headers :: response_headers

text \<open>The plain record \<open>{message, status, data, headers}\<close> returned by \<open>parseError\<close>.\<close>

record parsed_error =
  pe_message :: string
  pe_status :: int
  pe_data :: "json_value option"
  pe_headers :: "response_headers option"

text \<open>
  Hooks are callables, compared by reference (\<open>h !== hook\<close>). A hook is therefore a pair of
  its reference \<open>bh_id\<close> (\<open>ah_id\<close>) and its behaviour.

  A before-hook (\<open>BeforeHooks\<close>, lines 1-4) receives the url and the pending options object,
  which it may mutate in place: its behaviour returns \<open>Inr\<close> the options object as the hook
  left it, or \<open>Inl\<close> the value it threw.

  An after-hook (\<open>AfterHooks\<close>, lines 5-8) receives the response and the parsed body; it
  returns \<open>Inr\<close> the two objects as it left them, or \<open>Inl\<close> the value it threw.

  A hook acts on its arguments only: a hook that changes the hook lists of the instance
  while a call is in flight is outside this model.
\<close>

record before_hook =
  bh_id :: nat
  bh_fn :: "string \<Rightarrow> request_init \<Rightarrow> js_error + request_init"

record after_hook =
  ah_id :: nat
  ah_fn :: "response \<Rightarrow> json_value \<Rightarrow> js_error + response \<times> json_value"

text \<open>The transport \<open>fetch(url, options)\<close>: it throws or returns a response.\<close>

type_synonym transport = "string \<Rightarrow> request_init \<Rightarrow> js_error + response"

text \<open>The private fields of the class \<open>Fetcher\<close> (lines 42-45).\<close>

record fetcher =
  baseUrl :: string
  defaultOptions :: request_init
  beforeHooks :: "before_hook list"
  afterHooks :: "after_hook list"

text \<open>
  What a call does to its collaborators, in the order in which it does it: every invocation
  of a hook and of the transport, with the arguments passed.
\<close>

datatype event =
    BeforeHookCall nat string request_init
  | FetchCall string request_init
  | AfterHookCall nat response json_value

section \<open>The hook registry (lines 61-85)\<close>

definition addBeforeHook :: "fetcher \<Rightarrow> before_hook \<Rightarrow> fetcher" where
  "addBeforeHook F hook = F\<lparr>beforeHooks := beforeHooks F @ [hook]\<rparr>"

definition addAfterHook :: "fetcher \<Rightarrow> after_hook \<Rightarrow> fetcher" where
  "addAfterHook F hook = F\<lparr>afterHooks := afterHooks F @ [hook]\<rparr>"



definition clearHooks :: "fetcher \<Rightarrow> fetcher" where
  "clearHooks F = F\<lparr>beforeHooks := [], afterHooks := []\<rparr>"

section \<open>The request pipeline (lines 87-130)\<close>

text \<open>The decimal numeral of an array index, as a property key.\<close>

fun index_key :: "nat \<Rightarrow> string" where
  "index_key n =
     (if n < 10 then [''0123456789'' ! n]
      else index_key (n div 10) @ [''0123456789'' ! (n mod 10)])"

text \<open>
  Object spread copies the own enumerable properties of its operand. \<open>...undefined\<close>
  contributes nothing; a plain object contributes its entries; a \<open>Headers\<close> instance keeps
  its headers in an internal list and has no own enumerable property, so it contributes
  nothing; an array contributes its elements under their indices. An element of the array
  is the pair \<open>[name, value]\<close>, written here as the string \<open>name,value\<close> that the transport
  makes of it.
\<close>

fun spread_headers :: "headers_init option \<Rightarrow> header_record" where
  "spread_headers None = Map.empty"
| "spread_headers (Some (HeadersRecord r)) = r"
| "spread_headers (Some (HeadersInstance hs)) = Map.empty"
| "spread_headers (Some (HeadersPairs ps)) =
     map_of (zip (map index_key [0..<length ps]) (map (\<lambda>(k, v). k @ '','' @ v) ps))"

text \<open>
  \<open>{...a, ...b}\<close> on one field: the value of \<open>b\<close> where \<open>b\<close> has the key. A key that \<open>b\<close>
  holds with the value \<open>undefined\<close> is read as absent here, whereas the spread copies the
  \<open>undefined\<close> over the value of \<open>a\<close>; the two agree on \<open>headers\<close>, which lines 95-99
  replace, and on the method of a verb, which is always defined.
\<close>

definition spread_field :: "'a option \<Rightarrow> 'a option \<Rightarrow> 'a option" where
  "spread_field a b = (case b of None \<Rightarrow> a | Some v \<Rightarrow> Some v)"

text \<open>Lines 90-93: \<open>{...this.defaultOptions, ...options}\<close>.\<close>

definition spread_options :: "request_init \<Rightarrow> request_init \<Rightarrow> request_init" where
  "spread_options a b =
     \<lparr> http_method = spread_field (http_method a) (http_method b),
       headers = spread_field (headers a) (headers b),
       body = spread_field (body a) (body b),
       other = other a ++ other b \<rparr>"

definition default_content_type :: header_record where
  "default_content_type = [''Content-Type'' \<mapsto> ''application/json'']"

text \<open>Lines 90-99: the merged options before any hook has run.\<close>

definition initial_options :: "fetcher \<Rightarrow> request_init \<Rightarrow> request_init" where
  "initial_options F options =
     (spread_options (defaultOptions F) options)
       \<lparr> headers := Some (HeadersRecord
                           (default_content_type
                              ++ spread_headers (headers (defaultOptions F))
                              ++ spread_headers (headers options))) \<rparr>"

text \<open>Lines 102-104: the before-hooks, one after the other, on the same options object.\<close>

fun run_beforeHooks ::
  "before_hook list \<Rightarrow> string \<Rightarrow> request_init \<Rightarrow> event list \<times> (js_error + request_init)"
where
  "run_beforeHooks [] url mergedOptions = ([], Inr mergedOptions)"
| "run_beforeHooks (hook # hooks) url mergedOptions =
     (case bh_fn hook url mergedOptions of
        Inl error \<Rightarrow> ([BeforeHookCall (bh_id hook) url mergedOptions], Inl error)
      | Inr mergedOptions' \<Rightarrow>
          (case run_beforeHooks hooks url mergedOptions' of
             (t, r) \<Rightarrow> (BeforeHookCall (bh_id hook) url mergedOptions # t, r)))"

text \<open>Lines 106-109: the per-call headers are spread over the headers the hooks left.\<close>

definition final_options :: "request_init \<Rightarrow> request_init \<Rightarrow> request_init" where
  "final_options mergedOptions options =
     mergedOptions
       \<lparr> headers := Some (HeadersRecord
                           (spread_headers (headers mergedOptions)
                              ++ spread_headers (headers options))) \<rparr>"

text \<open>Line 112: \<open>await res.json().catch(() => null)\<close>.\<close>

definition parse_body :: "response \<Rightarrow> json_value" where
  "parse_body res = (case json res of Inl _ \<Rightarrow> JNull | Inr d \<Rightarrow> d)"

text \<open>
  Only an object or an array can be mutated through the reference a hook receives; a
  primitive body (\<open>null\<close>, a boolean, a number, a string) stays what was parsed.
\<close>

fun is_object :: "json_value \<Rightarrow> bool" where
  "is_object (JArr _) = True"
| "is_object (JObj _) = True"
| "is_object _ = False"

text \<open>Lines 114-116: the after-hooks, one after the other, on the same two objects.\<close>

fun run_afterHooks ::
  "after_hook list \<Rightarrow> response \<Rightarrow> json_value
     \<Rightarrow> event list \<times> (js_error + response \<times> json_value)"
where
  "run_afterHooks [] res d = ([], Inr (res, d))"
| "run_afterHooks (hook # hooks) res d =
     (case ah_fn hook res d of
        Inl error \<Rightarrow> ([AfterHookCall (ah_id hook) res d], Inl error)
      | Inr (res', d') \<Rightarrow>
          (case run_afterHooks hooks res' (if is_object d then d' else d) of
             (t, r) \<Rightarrow> (AfterHookCall (ah_id hook) res d # t, r)))"

text \<open>Lines 118-126: classification of the response.\<close>

definition classify :: "response \<Rightarrow> json_value \<Rightarrow> js_error + fetcher_response" where
  "classify res d =
     (if \<not> ok res
      then Inl (FetcherError (statusText res) (status res) (Some d) (Some (res_headers res)))
      else Inr \<lparr> data = d, env_status = status res, env_headers = res_headers res \<rparr>)"

text \<open>
  Lines 87-130. The result is the list of invocations made and the outcome of the call:
  \<open>Inl\<close> the value thrown (the \<open>catch\<close> of lines 127-129 rethrows what it caught),
  \<open>Inr\<close> the envelope returned.
\<close>

definition request ::
  "fetcher \<Rightarrow> transport \<Rightarrow> string \<Rightarrow> request_init
     \<Rightarrow> event list \<times> (js_error + fetcher_response)"
where
  "request F fetch path options =
     (let url = baseUrl F @ path in
      case run_beforeHooks (beforeHooks F) url (initial_options F options) of
        (t1, Inl error) \<Rightarrow> (t1, Inl error)
      | (t1, Inr mergedOptions) \<Rightarrow>
          (let mergedOptions' = final_options mergedOptions options in
           case fetch url mergedOptions' of
             Inl error \<Rightarrow> (t1 @ [FetchCall url mergedOptions'], Inl error)
           | Inr res \<Rightarrow>
               (case run_afterHooks (afterHooks F) res (parse_body res) of
                  (t2, Inl error) \<Rightarrow> (t1 @ [FetchCall url mergedOptions'] @ t2, Inl error)
                | (t2, Inr (res', d)) \<Rightarrow>
                    (t1 @ [FetchCall url mergedOptions'] @ t2, classify res' d))))"

text \<open>Lines 132-158: the verbs pass \<open>{ ...options, method: VERB }\<close>.\<close>

definition get ::
  "fetcher \<Rightarrow> transport \<Rightarrow> string \<Rightarrow> request_init
     \<Rightarrow> event list \<times> (js_error + fetcher_response)" where
  "get F fetch path options = request F fetch path (options\<lparr>http_method := Some ''GET''\<rparr>)"

definition post ::
  "fetcher \<Rightarrow> transport \<Rightarrow> string \<Rightarrow> request_init
     \<Rightarrow> event list \<times> (js_error + fetcher_response)" where
  "post F fetch path options = request F fetch path (options\<lparr>http_method := Some ''POST''\<rparr>)"

definition put ::
  "fetcher \<Rightarrow> transport \<Rightarrow> string \<Rightarrow> request_init
     \<Rightarrow> event list \<times> (js_error + fetcher_response)" where
  "put F fetch path options = request F fetch path (options\<lparr>http_method := Some ''PUT''\<rparr>)"

definition delete ::
  "fetcher \<Rightarrow> transport \<Rightarrow> string \<Rightarrow> request_init
     \<Rightarrow> event list \<times> (js_error + fetcher_response)" where
  "delete F fetch path options = request F fetch path (options\<lparr>http_method := Some ''DELETE''\<rparr>)"

text \<open>Lines 160-169: \<open>None\<close> is \<open>undefined\<close>.\<close>

definition parseError :: "js_error \<Rightarrow> parsed_error option" where
  "parseError error =
     (case error of
        FetcherError m s d h \<Rightarrow>
          Some \<lparr> pe_message = m, pe_status = s, pe_data = d, pe_headers = h \<rparr>
      | NativeError _ \<Rightarrow> None)"


section \<open>Observing a call\<close>

text \<open>The request headers of an options object, key by key.\<close>

definition header_of :: "request_init \<Rightarrow> string \<Rightarrow> string option" where
  "header_of opts k = spread_headers (headers opts) k"

text \<open>The arguments of the transport invocations in a list of events.\<close>

fun dispatched :: "event list \<Rightarrow> (string \<times> request_init) list" where
  "dispatched [] = []"
| "dispatched (FetchCall url opts # t) = (url, opts) # dispatched t"
| "dispatched (BeforeHookCall _ _ _ # t) = dispatched t"
| "dispatched (AfterHookCall _ _ _ # t) = dispatched t"

text \<open>The value of one header in each of them.\<close>

definition dispatched_header :: "event list \<Rightarrow> string \<Rightarrow> string option list" where
  "dispatched_header t k = map (\<lambda>(url, opts). header_of opts k) (dispatched t)"

text \<open>The references of the before-hooks (after-hooks) invoked, in the order of invocation.\<close>

fun before_calls :: "event list \<Rightarrow> nat list" where
  "before_calls [] = []"
| "before_calls (BeforeHookCall i _ _ # t) = i # before_calls t"
| "before_calls (FetchCall _ _ # t) = before_calls t"
| "before_calls (AfterHookCall _ _ _ # t) = before_calls t"

fun after_calls :: "event list \<Rightarrow> nat list" where
  "after_calls [] = []"
| "after_calls (AfterHookCall i _ _ # t) = i # after_calls t"
| "after_calls (FetchCall _ _ # t) = after_calls t"
| "after_calls (BeforeHookCall _ _ _ # t) = after_calls t"

text \<open>Headers that are absent or a plain object.\<close>

fun is_plain :: "headers_init option \<Rightarrow> bool" where
  "is_plain None = True"
| "is_plain (Some (HeadersRecord _)) = True"
| "is_plain (Some (HeadersInstance _)) = False"
| "is_plain (Some (HeadersPairs _)) = False"

text \<open>The four public verbs.\<close>

definition verbs ::
  "(fetcher \<Rightarrow> transport \<Rightarrow> string \<Rightarrow> request_init
      \<Rightarrow> event list \<times> (js_error + fetcher_response)) set" where
  "verbs = {get, post, put, delete}"

text \<open>
  What a hook may be known to do. A before-hook keeps a header (the method) when it leaves
  that entry as it found it whenever it returns; it sets a header when that entry holds
  the given value whenever it returns.
\<close>

definition keeps_header :: "before_hook \<Rightarrow> string \<Rightarrow> bool" where
  "keeps_header h k =
     (\<forall>url opts opts'. bh_fn h url opts = Inr opts' \<longrightarrow> header_of opts' k = header_of opts k)"

definition sets_header :: "before_hook \<Rightarrow> string \<Rightarrow> string \<Rightarrow> bool" where
  "sets_header h k v =
     (\<forall>url opts opts'. bh_fn h url opts = Inr opts' \<longrightarrow> header_of opts' k = Some v)"

definition keeps_method :: "before_hook \<Rightarrow> bool" where
  "keeps_method h =
     (\<forall>url opts opts'. bh_fn h url opts = Inr opts' \<longrightarrow> http_method opts' = http_method opts)"

text \<open>
  An after-hook returns when it never throws; it only observes when it returns and
  leaves both of its arguments as it received them.
\<close>

definition returns :: "after_hook \<Rightarrow> bool" where
  "returns h = (\<forall>res d. \<exists>r. ah_fn h res d = Inr r)"

definition observes :: "after_hook \<Rightarrow> bool" where
  "observes h = (\<forall>res d. ah_fn h res d = Inr (res, d))"

text \<open>
  Case-insensitive comparison of header names, in the words of the specification: two keys
  name the same header when they agree after lower-casing the ASCII letters. The source
  has no such operation.
\<close>

definition lower_char :: "char \<Rightarrow> char" where
  "lower_char c =
     (case map_of (zip ''ABCDEFGHIJKLMNOPQRSTUVWXYZ'' ''abcdefghijklmnopqrstuvwxyz'') c of
        Some l \<Rightarrow> l
      | None \<Rightarrow> c)"

definition ascii_lower :: "string \<Rightarrow> string" where
  "ascii_lower s = map lower_char s"

section \<open>Concrete instances, hooks and transports\<close>

text \<open>The default argument \<open>options = {}\<close>.\<close>

definition empty_options :: request_init where
  "empty_options = \<lparr> http_method = None, headers = None, body = None, other = Map.empty \<rparr>"

definition test_fetcher :: fetcher where
  "test_fetcher =
     \<lparr> baseUrl = ''https://test.com'', defaultOptions = empty_options,
       beforeHooks = [], afterHooks = [] \<rparr>"

text \<open>Transports: a 200 with a JSON body, a 404 with a JSON body, a 200 whose body is
  not JSON, and a network failure.\<close>

definition response_ok :: response where
  "response_ok =
     \<lparr> ok = True, status = 200, statusText = ''OK'', res_headers = [],
       json = Inr (JObj [(''value'', JStr ''12345'')]) \<rparr>"

definition response_not_found :: response where
  "response_not_found =
     \<lparr> ok = False, status = 404, statusText = ''Not Found'', res_headers = [],
       json = Inr (JObj [(''message'', JStr ''Not found'')]) \<rparr>"

definition response_no_json :: response where
  "response_no_json =
     \<lparr> ok = True, status = 200, statusText = ''OK'', res_headers = [],
       json = Inl (NativeError ''Unexpected end of JSON input'') \<rparr>"

definition fetch_ok :: transport where
  "fetch_ok url opts = Inr response_ok"

definition fetch_not_found :: transport where
  "fetch_not_found url opts = Inr response_not_found"

definition fetch_no_json :: transport where
  "fetch_no_json url opts = Inr response_no_json"

definition fetch_network_error :: transport where
  "fetch_network_error url opts = Inl (NativeError ''Network error'')"

text \<open>\<open>(_, options) => { options.headers["Content-Type"] = "application/x-www-form-urlencoded" }\<close>\<close>

definition hook_form_encoded :: before_hook where
  "hook_form_encoded =
     \<lparr> bh_id = 1,
       bh_fn = (\<lambda>url opts. Inr (opts\<lparr>headers :=
                  Some (HeadersRecord ((spread_headers (headers opts))
                          (''Content-Type'' \<mapsto> ''application/x-www-form-urlencoded'')))\<rparr>)) \<rparr>"

text \<open>\<open>(_, options) => { options.headers["x-trace"] = "on" }\<close>\<close>

definition hook_trace :: before_hook where
  "hook_trace =
     \<lparr> bh_id = 2,
       bh_fn = (\<lambda>url opts. Inr (opts\<lparr>headers :=
                  Some (HeadersRecord
                          ((spread_headers (headers opts))(''x-trace'' \<mapsto> ''on'')))\<rparr>)) \<rparr>"

text \<open>After-hooks: one that throws, one that only looks, one that writes into the body.\<close>

definition hook_throwing :: after_hook where
  "hook_throwing = \<lparr> ah_id = 1, ah_fn = (\<lambda>res d. Inl (NativeError ''hook failed'')) \<rparr>"

definition hook_logging :: after_hook where
  "hook_logging = \<lparr> ah_id = 2, ah_fn = (\<lambda>res d. Inr (res, d)) \<rparr>"

definition hook_rewriting :: after_hook where
  "hook_rewriting =
     \<lparr> ah_id = 3, ah_fn = (\<lambda>res d. Inr (res, JObj [(''value'', JStr ''changed'')])) \<rparr>"


text \<open>Options that carry a method of their own, and an instance whose defaults do.\<close>

definition options_head :: request_init where
  "options_head = empty_options\<lparr>http_method := Some ''HEAD''\<rparr>"

definition fetcher_patch :: fetcher where
  "fetcher_patch =
     \<lparr> baseUrl = ''https://test.com'',
       defaultOptions = empty_options\<lparr>http_method := Some ''PATCH''\<rparr>,
       beforeHooks = [hook_trace], afterHooks = [] \<rparr>"

text \<open>Per-call options \<open>{headers: {"Content-Type": "text/plain"}}\<close>, and an instance whose
  default headers are \<open>{"Content-Type": "text/html"}\<close>.\<close>

definition options_plain :: request_init where
  "options_plain =
     empty_options\<lparr>headers := Some (HeadersRecord [''Content-Type'' \<mapsto> ''text/plain''])\<rparr>"

definition fetcher_html :: fetcher where
  "fetcher_html =
     \<lparr> baseUrl = ''https://test.com'',
       defaultOptions =
         empty_options\<lparr>headers := Some (HeadersRecord [''Content-Type'' \<mapsto> ''text/html''])\<rparr>,
       beforeHooks = [hook_trace], afterHooks = [] \<rparr>"


text \<open>A second after-hook that only looks.\<close>

definition hook_metrics :: after_hook where
  "hook_metrics = \<lparr> ah_id = 4, ah_fn = (\<lambda>res d. Inr (res, d)) \<rparr>"

text \<open>Default headers \<open>{"content-type": "text/plain"}\<close>, and the same as per-call headers.\<close>

definition fetcher_lower :: fetcher where
  "fetcher_lower =
     \<lparr> baseUrl = ''https://test.com'',
       defaultOptions =
         empty_options\<lparr>headers := Some (HeadersRecord [''content-type'' \<mapsto> ''text/plain''])\<rparr>,
       beforeHooks = [], afterHooks = [] \<rparr>"

definition options_lower :: request_init where
  "options_lower =
     empty_options\<lparr>headers := Some (HeadersRecord [''content-type'' \<mapsto> ''text/plain''])\<rparr>"

text \<open>Per-call options \<open>{headers: new Headers({"x-test": "test"})}\<close>, and an instance whose
  default headers are \<open>new Headers({"Content-Type": "text/html"})\<close>.\<close>

definition options_instance :: request_init where
  "options_instance =
     empty_options\<lparr>headers := Some (HeadersInstance [(''x-test'', ''test'')])\<rparr>"

definition fetcher_instance :: fetcher where
  "fetcher_instance =
     \<lparr> baseUrl = ''https://test.com'',
       defaultOptions =
         empty_options\<lparr>headers := Some (HeadersInstance [(''Content-Type'', ''text/html'')])\<rparr>,
       beforeHooks = [], afterHooks = [] \<rparr>"

text \<open>\<open>(_, options) => { delete options.headers }\<close>\<close>

definition hook_dropping :: before_hook where
  "hook_dropping = \<lparr> bh_id = 5, bh_fn = (\<lambda>url opts. Inr (opts\<lparr>headers := None\<rparr>)) \<rparr>"

section \<open>Lemmas on the pipeline\<close>

declare index_key.simps [simp del]

lemma dispatched_append: "dispatched (t @ u) = dispatched t @ dispatched u"
  by (induction t rule: dispatched.induct) simp_all


lemma after_calls_append: "after_calls (t @ u) = after_calls t @ after_calls u"
  by (induction t rule: after_calls.induct) simp_all

lemma run_beforeHooks_events:
  assumes "run_beforeHooks hs url opts = (t, r)"
  shows "dispatched t = [] \<and> after_calls t = []"
  using assms
proof (induction hs arbitrary: opts t r)
  case Nil
  then show ?case by simp
next
  case (Cons h hs)
  show ?case
  proof (cases "bh_fn h url opts")
    case (Inl e)
    with Cons.prems show ?thesis by auto
  next
    case (Inr o1)
    obtain t' r' where rec: "run_beforeHooks hs url o1 = (t', r')"
      by (cases "run_beforeHooks hs url o1")
    from Cons.IH [OF rec] Cons.prems Inr rec show ?thesis by auto
  qed
qed

lemma run_afterHooks_events:
  assumes "run_afterHooks hs res d = (t, r)"
  shows "dispatched t = [] \<and> before_calls t = []"
  using assms
proof (induction hs arbitrary: res d t r)
  case Nil
  then show ?case by simp
next
  case (Cons h hs)
  show ?case
  proof (cases "ah_fn h res d")
    case (Inl e)
    with Cons.prems show ?thesis by auto
  next
    case (Inr p)
    obtain res' d' where p: "p = (res', d')" by (cases p)
    obtain t' r' where rec:
      "run_afterHooks hs res' (if is_object d then d' else d) = (t', r')"
      by (cases "run_afterHooks hs res' (if is_object d then d' else d)")
    from Cons.IH [OF rec] Cons.prems Inr p rec show ?thesis by auto
  qed
qed

text \<open>The call, stage by stage.\<close>

lemma request_before_throws:
  assumes "run_beforeHooks (beforeHooks F) (baseUrl F @ path) (initial_options F options)
             = (t1, Inl e)"
  shows "request F fetch path options = (t1, Inl e)"
  using assms by (simp add: request_def)

lemma request_fetch_throws:
  assumes "run_beforeHooks (beforeHooks F) (baseUrl F @ path) (initial_options F options)
             = (t1, Inr mo)"
    and "fetch (baseUrl F @ path) (final_options mo options) = Inl e"
  shows "request F fetch path options
           = (t1 @ [FetchCall (baseUrl F @ path) (final_options mo options)], Inl e)"
  using assms by (simp add: request_def)

lemma request_after:
  assumes "run_beforeHooks (beforeHooks F) (baseUrl F @ path) (initial_options F options)
             = (t1, Inr mo)"
    and "fetch (baseUrl F @ path) (final_options mo options) = Inr res"
    and "run_afterHooks (afterHooks F) res (parse_body res) = (t2, r)"
  shows "request F fetch path options
           = (t1 @ [FetchCall (baseUrl F @ path) (final_options mo options)] @ t2,
              case r of Inl e \<Rightarrow> Inl e | Inr (res', d) \<Rightarrow> classify res' d)"
  using assms by (simp add: request_def split: sum.splits prod.splits)

lemma dispatched_request:
  "dispatched (fst (request F fetch path options)) =
     (case snd (run_beforeHooks (beforeHooks F) (baseUrl F @ path) (initial_options F options)) of
        Inl e \<Rightarrow> []
      | Inr mo \<Rightarrow> [(baseUrl F @ path, final_options mo options)])"
proof -
  obtain t1 r1 where b:
    "run_beforeHooks (beforeHooks F) (baseUrl F @ path) (initial_options F options) = (t1, r1)"
    by (cases "run_beforeHooks (beforeHooks F) (baseUrl F @ path) (initial_options F options)")
  have t1: "dispatched t1 = []"
    using run_beforeHooks_events [OF b] by simp
  show ?thesis
  proof (cases r1)
    case (Inl e)
    with b t1 show ?thesis by (simp add: request_before_throws)
  next
    case (Inr mo)
    note mo = this
    show ?thesis
    proof (cases "fetch (baseUrl F @ path) (final_options mo options)")
      case (Inl e)
      with b mo t1 show ?thesis by (simp add: request_fetch_throws dispatched_append)
    next
      case (Inr res)
      obtain t2 r where a: "run_afterHooks (afterHooks F) res (parse_body res) = (t2, r)"
        by (cases "run_afterHooks (afterHooks F) res (parse_body res)")
      have t2: "dispatched t2 = []"
        using run_afterHooks_events [OF a] by simp
      from b mo Inr a t1 t2 show ?thesis
        by (simp add: request_after dispatched_append)
    qed
  qed
qed

lemma dispatched_requestD:
  assumes "(url, mo) \<in> set (dispatched (fst (request F fetch path options)))"
  obtains t1 hooked where
    "run_beforeHooks (beforeHooks F) (baseUrl F @ path) (initial_options F options)
       = (t1, Inr hooked)"
    and "url = baseUrl F @ path" and "mo = final_options hooked options"
proof -
  obtain t1 r1 where b:
    "run_beforeHooks (beforeHooks F) (baseUrl F @ path) (initial_options F options) = (t1, r1)"
    by (cases "run_beforeHooks (beforeHooks F) (baseUrl F @ path) (initial_options F options)")
  from assms b show thesis
    by (cases r1) (auto simp: dispatched_request intro: that)
qed

text \<open>Header lookups through the two merges.\<close>

lemma header_of_final:
  "header_of (final_options mo options) k =
     (case header_of options k of Some v \<Rightarrow> Some v | None \<Rightarrow> header_of mo k)"
  by (simp add: header_of_def final_options_def map_add_def
           split: option.splits)

lemma header_of_initial:
  "header_of (initial_options F options) k =
     (case header_of options k of
        Some v \<Rightarrow> Some v
      | None \<Rightarrow>
          (case header_of (defaultOptions F) k of
             Some v \<Rightarrow> Some v
           | None \<Rightarrow> if k = ''Content-Type'' then Some ''application/json'' else None))"
  by (simp add: header_of_def initial_options_def map_add_def
                default_content_type_def split: option.splits)

lemma header_of_method_update [simp]:
  "header_of (opts\<lparr>http_method := m\<rparr>) k = header_of opts k"
  by (simp add: header_of_def)

lemma method_final [simp]: "http_method (final_options mo options) = http_method mo"
  by (simp add: final_options_def)

lemma method_initial:
  "http_method (initial_options F options) = spread_field (http_method (defaultOptions F)) (http_method options)"
  by (simp add: initial_options_def spread_options_def)

lemma run_beforeHooks_keeps_header:
  assumes "\<forall>h\<in>set hs. keeps_header h k"
    and "run_beforeHooks hs url opts = (t, Inr opts')"
  shows "header_of opts' k = header_of opts k"
  using assms
proof (induction hs arbitrary: opts t)
  case Nil
  then show ?case by simp
next
  case (Cons h hs)
  from Cons.prems(2) obtain o1 t' where
    h: "bh_fn h url opts = Inr o1" and r: "run_beforeHooks hs url o1 = (t', Inr opts')"
    by (auto split: sum.splits prod.splits)
  from Cons.prems(1) h have "header_of o1 k = header_of opts k"
    by (simp add: keeps_header_def)
  moreover from Cons.IH [OF _ r] Cons.prems(1) have "header_of opts' k = header_of o1 k"
    by simp
  ultimately show ?case by simp
qed

lemma run_beforeHooks_keeps_method:
  assumes "\<forall>h\<in>set hs. keeps_method h"
    and "run_beforeHooks hs url opts = (t, Inr opts')"
  shows "http_method opts' = http_method opts"
  using assms
proof (induction hs arbitrary: opts t)
  case Nil
  then show ?case by simp
next
  case (Cons h hs)
  from Cons.prems(2) obtain o1 t' where
    h: "bh_fn h url opts = Inr o1" and r: "run_beforeHooks hs url o1 = (t', Inr opts')"
    by (auto split: sum.splits prod.splits)
  from Cons.prems(1) h have "http_method o1 = http_method opts"
    by (simp add: keeps_method_def)
  moreover from Cons.IH [OF _ r] Cons.prems(1) have "http_method opts' = http_method o1"
    by simp
  ultimately show ?case by simp
qed

text \<open>The hooks of a list that is split in two run as the first part, then the second.\<close>

lemma run_beforeHooks_append:
  "run_beforeHooks (hs1 @ hs2) url opts =
     (case run_beforeHooks hs1 url opts of
        (t1, Inl e) \<Rightarrow> (t1, Inl e)
      | (t1, Inr opts1) \<Rightarrow>
          (case run_beforeHooks hs2 url opts1 of (t2, r) \<Rightarrow> (t1 @ t2, r)))"
  by (induction hs1 arbitrary: opts) (auto split: sum.splits prod.splits)

lemma run_beforeHooks_sets_header:
  assumes "sets_header h k v" and "\<forall>h'\<in>set hs2. keeps_header h' k"
    and "run_beforeHooks (hs1 @ h # hs2) url opts = (t, Inr opts')"
  shows "header_of opts' k = Some v"
proof -
  from assms(3) obtain t1 o1 t2 where
    "run_beforeHooks hs1 url opts = (t1, Inr o1)"
    and r: "run_beforeHooks (h # hs2) url o1 = (t2, Inr opts')"
    by (auto simp: run_beforeHooks_append split: sum.splits prod.splits)
  from r obtain o2 t3 where
    h: "bh_fn h url o1 = Inr o2" and r2: "run_beforeHooks hs2 url o2 = (t3, Inr opts')"
    by (auto split: sum.splits prod.splits)
  from assms(1) h have "header_of o2 k = Some v" by (simp add: sets_header_def)
  with run_beforeHooks_keeps_header [OF assms(2) r2] show ?thesis by simp
qed


lemma verbs_request:
  assumes "call \<in> verbs"
  shows "\<exists>m. \<forall>F fetch path options.
    call F fetch path options = request F fetch path (options\<lparr>http_method := Some m\<rparr>)"
  using assms unfolding verbs_def
  by (auto simp: get_def post_def put_def delete_def)

section \<open>The shape of a call\<close>

text \<open>
  A call ends in one of three ways: a before-hook throws; the transport throws; the
  transport responds, and the after-hooks run on the response and the parsed body.
\<close>

lemma request_cases:
  obtains
    (before_throws) t1 e where
      "run_beforeHooks (beforeHooks F) (baseUrl F @ path) (initial_options F options)
         = (t1, Inl e)"
      "request F fetch path options = (t1, Inl e)"
  | (fetch_throws) t1 hooked e where
      "run_beforeHooks (beforeHooks F) (baseUrl F @ path) (initial_options F options)
         = (t1, Inr hooked)"
      "fetch (baseUrl F @ path) (final_options hooked options) = Inl e"
      "request F fetch path options
         = (t1 @ [FetchCall (baseUrl F @ path) (final_options hooked options)], Inl e)"
  | (responded) t1 hooked res t2 r where
      "run_beforeHooks (beforeHooks F) (baseUrl F @ path) (initial_options F options)
         = (t1, Inr hooked)"
      "fetch (baseUrl F @ path) (final_options hooked options) = Inr res"
      "run_afterHooks (afterHooks F) res (parse_body res) = (t2, r)"
      "request F fetch path options
         = (t1 @ [FetchCall (baseUrl F @ path) (final_options hooked options)] @ t2,
            case r of Inl e \<Rightarrow> Inl e | Inr (res', d) \<Rightarrow> classify res' d)"
proof -
  obtain t1 r1 where b:
    "run_beforeHooks (beforeHooks F) (baseUrl F @ path) (initial_options F options) = (t1, r1)"
    by (cases "run_beforeHooks (beforeHooks F) (baseUrl F @ path) (initial_options F options)")
  show thesis
  proof (cases r1)
    case (Inl e)
    with b show thesis by (auto intro: before_throws simp: request_before_throws)
  next
    case (Inr hooked)
    note hooked = this
    show thesis
    proof (cases "fetch (baseUrl F @ path) (final_options hooked options)")
      case (Inl e)
      with b hooked show thesis by (auto intro: fetch_throws simp: request_fetch_throws)
    next
      case (Inr res)
      obtain t2 r where a: "run_afterHooks (afterHooks F) res (parse_body res) = (t2, r)"
        by (cases "run_afterHooks (afterHooks F) res (parse_body res)")
      from b hooked Inr a show thesis
        by (auto intro: responded simp: request_after)
    qed
  qed
qed

text \<open>A call that reached the transport and got a response.\<close>

lemma request_responded:
  assumes "(url, mo) \<in> set (dispatched (fst (request F fetch path options)))"
    and "fetch url mo = Inr res"
    and "run_afterHooks (afterHooks F) res (parse_body res) = (t2, r)"
  obtains t1 where
    "request F fetch path options
       = (t1 @ [FetchCall url mo] @ t2,
          case r of Inl e \<Rightarrow> Inl e | Inr (res', d) \<Rightarrow> classify res' d)"
    "dispatched t1 = []" "after_calls t1 = []"
proof -
  from assms(1) obtain t1 hk where
    b: "run_beforeHooks (beforeHooks F) (baseUrl F @ path) (initial_options F options)
          = (t1, Inr hk)"
    and u: "url = baseUrl F @ path" and m: "mo = final_options hk options"
    by (rule dispatched_requestD)
  from assms(2,3) b u m have
    "request F fetch path options
       = (t1 @ [FetchCall url mo] @ t2,
          case r of Inl e \<Rightarrow> Inl e | Inr (res', d) \<Rightarrow> classify res' d)"
    by (simp add: request_after)
  with run_beforeHooks_events [OF b] show thesis by (auto intro: that)
qed


lemma run_afterHooks_calls:
  assumes "run_afterHooks hs res d = (t, r)"
  shows "prefix (after_calls t) (map ah_id hs)
         \<and> ((\<exists>p. r = Inr p) \<longrightarrow> after_calls t = map ah_id hs)"
  using assms
proof (induction hs arbitrary: res d t r)
  case Nil
  then show ?case by simp
next
  case (Cons h hs)
  show ?case
  proof (cases "ah_fn h res d")
    case (Inl e)
    with Cons.prems show ?thesis by auto
  next
    case (Inr p)
    obtain res' d' where p: "p = (res', d')" by (cases p)
    obtain t' r' where rec:
      "run_afterHooks hs res' (if is_object d then d' else d) = (t', r')"
      by (cases "run_afterHooks hs res' (if is_object d then d' else d)")
    from Cons.IH [OF rec] Cons.prems Inr p rec show ?thesis by auto
  qed
qed



text \<open>After-hooks that only observe, that return, and a body that cannot be written.\<close>

lemma run_afterHooks_observers:
  assumes "\<forall>h\<in>set hs. observes h"
  shows "run_afterHooks hs res d = (map (\<lambda>h. AfterHookCall (ah_id h) res d) hs, Inr (res, d))"
  using assms by (induction hs) (simp_all add: observes_def)

lemma run_afterHooks_returns:
  assumes "\<forall>h\<in>set hs. returns h"
  shows "\<exists>t p. run_afterHooks hs res d = (t, Inr p)"
  using assms
proof (induction hs arbitrary: res d)
  case Nil
  then show ?case by simp
next
  case (Cons h hs)
  from Cons.prems obtain res' d' where h: "ah_fn h res d = Inr (res', d')"
    unfolding returns_def by (metis list.set_intros(1) surj_pair)
  from Cons.IH [of res' "if is_object d then d' else d"] Cons.prems obtain t p where
    "run_afterHooks hs res' (if is_object d then d' else d) = (t, Inr p)"
    by auto
  with h show ?case by simp
qed

lemma run_afterHooks_primitive:
  assumes "\<not> is_object d" and "run_afterHooks hs res d = (t, Inr (res', d'))"
  shows "d' = d"
  using assms
proof (induction hs arbitrary: res t)
  case Nil
  then show ?case by simp
next
  case (Cons h hs)
  from Cons.prems(2) obtain r1 d1 t1 where
    "ah_fn h res d = Inr (r1, d1)"
    and rec: "run_afterHooks hs r1 (if is_object d then d1 else d) = (t1, Inr (res', d'))"
    by (auto split: sum.splits prod.splits)
  with Cons.prems(1) have "run_afterHooks hs r1 d = (t1, Inr (res', d'))" by simp
  from Cons.IH [OF Cons.prems(1) this] show ?case .
qed


lemma initial_options_hooks [simp]:
  "initial_options (F\<lparr>afterHooks := ahs\<rparr>) options = initial_options F options"
  "initial_options (F\<lparr>beforeHooks := bhs\<rparr>) options = initial_options F options"
  by (simp_all add: initial_options_def)

section \<open>Header precedence\<close>

text \<open>What the concrete hooks do to a header.\<close>

lemma hook_trace_keeps:
  "k \<noteq> ''x-trace'' \<Longrightarrow> keeps_header hook_trace k"
  by (auto simp: keeps_header_def hook_trace_def header_of_def)

lemma hook_trace_keeps_method: "keeps_method hook_trace"
  by (auto simp: keeps_method_def hook_trace_def)

lemma hook_form_encoded_sets:
  "sets_header hook_form_encoded ''Content-Type'' ''application/x-www-form-urlencoded''"
  by (auto simp: sets_header_def hook_form_encoded_def header_of_def)

lemma get_verb: "get \<in> verbs"
  by (simp add: verbs_def)

text \<open>The headers of an options object that is sent to the transport are a plain object.\<close>

lemma headers_final:
  "headers (final_options mo options)
     = Some (HeadersRecord (spread_headers (headers mo) ++ spread_headers (headers options)))"
  by (simp add: final_options_def)

text \<open>What \<open>header_of\<close> reads from headers that are absent, a plain object, an instance.\<close>

lemma header_of_shapes:
  "headers opts = None \<Longrightarrow> header_of opts k = None"
  "headers opts = Some (HeadersRecord r) \<Longrightarrow> header_of opts k = r k"
  "headers opts = Some (HeadersInstance hs) \<Longrightarrow> header_of opts k = None"
  by (simp_all add: header_of_def)

text \<open>
  C1, as stated, fails: per-call headers may be a \<open>Headers\<close> instance, which both spreads
  (lines 98 and 108) copy nothing from. The call passes
  \<open>{headers: new Headers({"x-test": "test"})}\<close> and the options sent to the transport have
  no entry \<open>x-test\<close>.
\<close>

theorem per_call_headers_instance_dropped_counterexample:
  "headers options_instance = Some (HeadersInstance [(''x-test'', ''test'')])
   \<and> dispatched_header (fst (get test_fetcher fetch_ok ''/test'' options_instance)) ''x-test''
     = [None]"
  by (simp add: dispatched_header_def get_def dispatched_request test_fetcher_def
        options_instance_def empty_options_def header_of_def final_options_def
        initial_options_def spread_options_def default_content_type_def)

text \<open>
  C1, amended. In a call of \<open>get\<close>, \<open>post\<close>, \<open>put\<close> or \<open>delete\<close> whose per-call headers are
  a plain object, the headers sent to the transport are a plain object in which every key
  of the per-call headers has the per-call value, whatever the instance defaults hold for
  that key and whatever the before-hooks did to it: the hooks run on the first merge, and
  the per-call headers are spread once more over what they leave.
\<close>

theorem plain_per_call_headers_win:
  assumes "call \<in> verbs"
    and "(url, mo) \<in> set (dispatched (fst (call F fetch path options)))"
    and "headers options = Some (HeadersRecord r)"
    and "r k = Some v"
  shows "\<exists>m. headers mo = Some (HeadersRecord m) \<and> m k = Some v"
proof -
  from verbs_request [OF assms(1)] obtain m where
    call: "call F fetch path options = request F fetch path (options\<lparr>http_method := Some m\<rparr>)"
    by blast
  from assms(2) call obtain hooked where
    "mo = final_options hooked (options\<lparr>http_method := Some m\<rparr>)"
    by (auto elim: dispatched_requestD)
  then have sent: "headers mo
      = Some (HeadersRecord (spread_headers (headers hooked) ++ r))"
    using assms(3) by (simp add: headers_final)
  have entry: "(spread_headers (headers hooked) ++ r) k = Some v"
    using assms(4) by simp
  show ?thesis
  proof (intro exI conjI)
    show "headers mo = Some (HeadersRecord (spread_headers (headers hooked) ++ r))"
      by (rule sent)
    show "(spread_headers (headers hooked) ++ r) k = Some v"
      by (rule entry)
  qed
qed

text \<open>
  The hook sets \<open>Content-Type\<close> after the first merge; the call passes
  \<open>{headers: {"Content-Type": "text/plain"}}\<close>.
\<close>

theorem plain_per_call_headers_win_witness:
  "get \<in> verbs
   \<and> headers options_plain = Some (HeadersRecord [''Content-Type'' \<mapsto> ''text/plain''])
   \<and> [''Content-Type'' \<mapsto> ''text/plain''] ''Content-Type'' = Some ''text/plain''
   \<and> dispatched_header
       (fst (get (addBeforeHook test_fetcher hook_form_encoded) fetch_ok ''/x'' options_plain))
       ''Content-Type''
     = [Some ''text/plain'']"
proof -
  let ?d = "dispatched (fst (get (addBeforeHook test_fetcher hook_form_encoded) fetch_ok ''/x''
                               options_plain))"
  have h: "headers options_plain = Some (HeadersRecord [''Content-Type'' \<mapsto> ''text/plain''])"
    by (simp add: options_plain_def empty_options_def)
  have r: "[''Content-Type'' \<mapsto> ''text/plain''] ''Content-Type'' = Some ''text/plain''"
    by simp
  obtain url mo where d: "?d = [(url, mo)]"
    by (simp add: get_def dispatched_request addBeforeHook_def test_fetcher_def
                  hook_form_encoded_def)
  then have "(url, mo) \<in> set ?d" by simp
  from plain_per_call_headers_win [OF get_verb this h r]
  have "header_of mo ''Content-Type'' = Some ''text/plain''"
    by (auto simp: header_of_def)
  with d get_verb h r show ?thesis by (simp add: dispatched_header_def)
qed

text \<open>
  C5, as stated, fails in three ways. Default headers given as the instance
  \<open>new Headers({"Content-Type": "text/html"})\<close> are copied by no spread, and
  \<open>application/json\<close> is sent though a layer set the header. Default headers
  \<open>{"content-type": "text/plain"}\<close> set the header under another letter case, and
  \<open>application/json\<close> is sent under \<open>Content-Type\<close> all the same. A before-hook that deletes
  \<open>options.headers\<close> defines no header, no other layer does, and no \<open>Content-Type\<close> is sent.
\<close>

theorem content_type_layers_counterexample:
  "headers (defaultOptions fetcher_instance)
     = Some (HeadersInstance [(''Content-Type'', ''text/html'')])
   \<and> dispatched_header (fst (get fetcher_instance fetch_ok ''/x'' empty_options)) ''Content-Type''
     = [Some ''application/json'']
   \<and> header_of (defaultOptions fetcher_lower) ''content-type'' = Some ''text/plain''
   \<and> ascii_lower ''content-type'' = ascii_lower ''Content-Type''
   \<and> dispatched_header (fst (get fetcher_lower fetch_ok ''/x'' empty_options)) ''Content-Type''
     = [Some ''application/json'']
   \<and> headers (defaultOptions test_fetcher) = None
   \<and> headers empty_options = None
   \<and> dispatched_header
       (fst (get (addBeforeHook test_fetcher hook_dropping) fetch_ok ''/x'' empty_options))
       ''Content-Type''
     = [None]"
  by (simp add: dispatched_header_def get_def dispatched_request test_fetcher_def
        fetcher_instance_def fetcher_lower_def addBeforeHook_def hook_dropping_def
        empty_options_def header_of_def final_options_def initial_options_def
        spread_options_def default_content_type_def ascii_lower_def lower_char_def)

text \<open>
  C5, amended. Let the instance default headers and the per-call headers each be absent or
  a plain object, and read a key as the exact string. In the options sent to the
  transport, \<open>Content-Type\<close> is \<open>application/json\<close> when neither the default headers nor
  the per-call headers have the key and every before-hook leaves the entry of that key as
  it found it. When a layer sets the key, the value sent is that layer's, by precedence:
  the per-call value; else the value of the last before-hook that sets it, the hooks after
  it leaving the entry as they found it; else, every before-hook leaving the entry as it
  found it, the instance default.
\<close>

theorem content_type_default:
  assumes "call \<in> verbs"
    and "(url, mo) \<in> set (dispatched (fst (call F fetch path options)))"
    and "is_plain (headers options)" and "is_plain (headers (defaultOptions F))"
  shows
    "(header_of options ''Content-Type'' = None
        \<and> header_of (defaultOptions F) ''Content-Type'' = None
        \<and> (\<forall>h\<in>set (beforeHooks F). keeps_header h ''Content-Type'')
       \<longrightarrow> header_of mo ''Content-Type'' = Some ''application/json'')
     \<and> (header_of options ''Content-Type'' = Some v
       \<longrightarrow> header_of mo ''Content-Type'' = Some v)
     \<and> (header_of options ''Content-Type'' = None
        \<and> beforeHooks F = hs1 @ h # hs2 \<and> sets_header h ''Content-Type'' w
        \<and> (\<forall>h'\<in>set hs2. keeps_header h' ''Content-Type'')
       \<longrightarrow> header_of mo ''Content-Type'' = Some w)
     \<and> (header_of options ''Content-Type'' = None
        \<and> header_of (defaultOptions F) ''Content-Type'' = Some d
        \<and> (\<forall>h\<in>set (beforeHooks F). keeps_header h ''Content-Type'')
       \<longrightarrow> header_of mo ''Content-Type'' = Some d)"
proof -
  from verbs_request [OF assms(1)] obtain m where
    call: "call F fetch path options = request F fetch path (options\<lparr>http_method := Some m\<rparr>)"
    by blast
  let ?opts = "options\<lparr>http_method := Some m\<rparr>"
  from assms(2) call obtain t1 hooked where
    run: "run_beforeHooks (beforeHooks F) (baseUrl F @ path) (initial_options F ?opts)
            = (t1, Inr hooked)"
    and mo: "mo = final_options hooked ?opts"
    by (auto elim: dispatched_requestD)
  have final: "header_of mo ''Content-Type'' =
      (case header_of options ''Content-Type'' of
         Some x \<Rightarrow> Some x | None \<Rightarrow> header_of hooked ''Content-Type'')"
    using mo by (simp add: header_of_final)
  have kept: "header_of hooked ''Content-Type''
                = header_of (initial_options F ?opts) ''Content-Type''"
    if "\<forall>h\<in>set (beforeHooks F). keeps_header h ''Content-Type''"
    using run_beforeHooks_keeps_header [OF that run] .
  have "header_of mo ''Content-Type'' = Some ''application/json''"
    if "header_of options ''Content-Type'' = None"
      and "header_of (defaultOptions F) ''Content-Type'' = None"
      and "\<forall>h\<in>set (beforeHooks F). keeps_header h ''Content-Type''"
    using that final kept by (simp add: header_of_initial)
  moreover have "header_of mo ''Content-Type'' = Some v"
    if "header_of options ''Content-Type'' = Some v"
    using that final by simp
  moreover have "header_of mo ''Content-Type'' = Some w"
    if "header_of options ''Content-Type'' = None"
      and "beforeHooks F = hs1 @ h # hs2" and "sets_header h ''Content-Type'' w"
      and "\<forall>h'\<in>set hs2. keeps_header h' ''Content-Type''"
  proof -
    from run that(2) have
      "run_beforeHooks (hs1 @ h # hs2) (baseUrl F @ path) (initial_options F ?opts)
         = (t1, Inr hooked)"
      by simp
    from run_beforeHooks_sets_header [OF that(3) that(4) this] that(1) final
    show ?thesis by simp
  qed
  moreover have "header_of mo ''Content-Type'' = Some d"
    if "header_of options ''Content-Type'' = None"
      and "header_of (defaultOptions F) ''Content-Type'' = Some d"
      and "\<forall>h\<in>set (beforeHooks F). keeps_header h ''Content-Type''"
    using that final kept by (simp add: header_of_initial)
  ultimately show ?thesis by blast
qed

text \<open>
  Four calls of \<open>get\<close>: no layer sets the key; the per-call headers set it over a hook
  that sets it too; only a hook sets it; only the instance defaults set it.
\<close>

theorem content_type_default_witness:
  "get \<in> verbs
   \<and> is_plain (headers empty_options) \<and> is_plain (headers options_plain)
   \<and> is_plain (headers (defaultOptions test_fetcher))
   \<and> is_plain (headers (defaultOptions fetcher_html))
   \<and> dispatched_header
       (fst (get (addBeforeHook test_fetcher hook_trace) fetch_ok ''/x'' empty_options))
       ''Content-Type''
     = [Some ''application/json'']
   \<and> dispatched_header
       (fst (get (addBeforeHook test_fetcher hook_form_encoded) fetch_ok ''/x'' options_plain))
       ''Content-Type''
     = [Some ''text/plain'']
   \<and> dispatched_header
       (fst (get (addBeforeHook test_fetcher hook_form_encoded) fetch_ok ''/x'' empty_options))
       ''Content-Type''
     = [Some ''application/x-www-form-urlencoded'']
   \<and> dispatched_header (fst (get fetcher_html fetch_ok ''/x'' empty_options)) ''Content-Type''
     = [Some ''text/html'']"
proof -
  have pe: "is_plain (headers empty_options)" and pp: "is_plain (headers options_plain)"
    and pt: "is_plain (headers (defaultOptions test_fetcher))"
    and ph: "is_plain (headers (defaultOptions fetcher_html))"
    by (simp_all add: empty_options_def options_plain_def test_fetcher_def fetcher_html_def)
  have pt': "is_plain (headers (defaultOptions (addBeforeHook test_fetcher hk)))" for hk
    using pt by (simp add: addBeforeHook_def)
  have e: "header_of empty_options ''Content-Type'' = None"
    by (simp add: header_of_def empty_options_def)
  have p: "header_of options_plain ''Content-Type'' = Some ''text/plain''"
    by (simp add: header_of_def options_plain_def)
  have k: "keeps_header hook_trace ''Content-Type''" by (simp add: hook_trace_keeps)
  let ?d1 = "dispatched (fst (get (addBeforeHook test_fetcher hook_trace) fetch_ok ''/x'' empty_options))"
  let ?d2 = "dispatched (fst (get (addBeforeHook test_fetcher hook_form_encoded) fetch_ok ''/x'' options_plain))"
  let ?d3 = "dispatched (fst (get (addBeforeHook test_fetcher hook_form_encoded) fetch_ok ''/x'' empty_options))"
  let ?d4 = "dispatched (fst (get fetcher_html fetch_ok ''/x'' empty_options))"
  obtain u1 m1 where d1: "?d1 = [(u1, m1)]"
    by (simp add: get_def dispatched_request addBeforeHook_def test_fetcher_def hook_trace_def)
  obtain u2 m2 where d2: "?d2 = [(u2, m2)]"
    by (simp add: get_def dispatched_request addBeforeHook_def test_fetcher_def
                  hook_form_encoded_def)
  obtain u3 m3 where d3: "?d3 = [(u3, m3)]"
    by (simp add: get_def dispatched_request addBeforeHook_def test_fetcher_def
                  hook_form_encoded_def)
  obtain u4 m4 where d4: "?d4 = [(u4, m4)]"
    by (simp add: get_def dispatched_request fetcher_html_def hook_trace_def)
  have i1: "(u1, m1) \<in> set ?d1" and i2: "(u2, m2) \<in> set ?d2"
    and i3: "(u3, m3) \<in> set ?d3" and i4: "(u4, m4) \<in> set ?d4"
    using d1 d2 d3 d4 by simp_all
  have "header_of m1 ''Content-Type'' = Some ''application/json''"
    using content_type_default [OF get_verb i1 pe pt'] e k
    by (simp add: addBeforeHook_def test_fetcher_def)
  moreover have "header_of m2 ''Content-Type'' = Some ''text/plain''"
    using content_type_default [OF get_verb i2 pp pt', of "''text/plain''"] p by simp
  moreover have "header_of m3 ''Content-Type'' = Some ''application/x-www-form-urlencoded''"
    using content_type_default [OF get_verb i3 pe pt', of _ "[]" hook_form_encoded "[]"
            "''application/x-www-form-urlencoded''"] e hook_form_encoded_sets
    by (simp add: addBeforeHook_def test_fetcher_def)
  moreover have "header_of m4 ''Content-Type'' = Some ''text/html''"
    using content_type_default [OF get_verb i4 pe ph, of _ _ _ _ _ "''text/html''"] e k
    by (simp add: fetcher_html_def header_of_def)
  ultimately show ?thesis using d1 d2 d3 d4 get_verb pe pp pt ph
    by (simp add: dispatched_header_def)
qed

section \<open>The method of a verb\<close>

text \<open>
  C10. When every before-hook leaves the method of the pending options as it found it, the
  options passed to the transport by \<open>get\<close>, \<open>post\<close>, \<open>put\<close> and \<open>delete\<close> carry
  \<open>GET\<close>, \<open>POST\<close>, \<open>PUT\<close> and \<open>DELETE\<close>, whatever method the per-call options or the instance
  defaults hold.
\<close>

theorem verb_method_dispatched:
  assumes "\<forall>h\<in>set (beforeHooks F). keeps_method h"
  shows
    "((url, mo) \<in> set (dispatched (fst (get F fetch path options)))
        \<longrightarrow> http_method mo = Some ''GET'')
     \<and> ((url, mo) \<in> set (dispatched (fst (post F fetch path options)))
        \<longrightarrow> http_method mo = Some ''POST'')
     \<and> ((url, mo) \<in> set (dispatched (fst (put F fetch path options)))
        \<longrightarrow> http_method mo = Some ''PUT'')
     \<and> ((url, mo) \<in> set (dispatched (fst (delete F fetch path options)))
        \<longrightarrow> http_method mo = Some ''DELETE'')"
proof -
  have verb: "http_method mo = Some m"
    if "(url, mo) \<in> set (dispatched (fst (request F fetch path (options\<lparr>http_method := Some m\<rparr>))))"
    for m
  proof -
    let ?opts = "options\<lparr>http_method := Some m\<rparr>"
    from that obtain t1 hooked where
      run: "run_beforeHooks (beforeHooks F) (baseUrl F @ path) (initial_options F ?opts)
              = (t1, Inr hooked)"
      and mo: "mo = final_options hooked ?opts"
      by (auto elim: dispatched_requestD)
    from run_beforeHooks_keeps_method [OF assms run]
    have "http_method hooked = Some m"
      by (simp add: method_initial spread_field_def)
    with mo show ?thesis by simp
  qed
  show ?thesis
    by (auto simp: get_def post_def put_def delete_def dest: verb)
qed

text \<open>
  The instance defaults hold \<open>PATCH\<close> and the per-call options \<open>HEAD\<close>; the one hook writes
  a header only.
\<close>

theorem verb_method_dispatched_witness:
  "map (\<lambda>(url, mo). http_method mo)
      (dispatched (fst (get fetcher_patch fetch_ok ''/x'' options_head))) = [Some ''GET'']
   \<and> map (\<lambda>(url, mo). http_method mo)
      (dispatched (fst (post fetcher_patch fetch_ok ''/x'' options_head))) = [Some ''POST'']
   \<and> map (\<lambda>(url, mo). http_method mo)
      (dispatched (fst (put fetcher_patch fetch_ok ''/x'' options_head))) = [Some ''PUT'']
   \<and> map (\<lambda>(url, mo). http_method mo)
      (dispatched (fst (delete fetcher_patch fetch_ok ''/x'' options_head))) = [Some ''DELETE'']"
proof -
  have k: "\<forall>h\<in>set (beforeHooks fetcher_patch). keeps_method h"
    by (simp add: fetcher_patch_def hook_trace_keeps_method)
  note vm = verb_method_dispatched [OF k, of _ _ fetch_ok "''/x''" options_head]
  obtain u1 m1 where d1:
    "dispatched (fst (get fetcher_patch fetch_ok ''/x'' options_head)) = [(u1, m1)]"
    by (simp add: get_def dispatched_request fetcher_patch_def hook_trace_def)
  obtain u2 m2 where d2:
    "dispatched (fst (post fetcher_patch fetch_ok ''/x'' options_head)) = [(u2, m2)]"
    by (simp add: post_def dispatched_request fetcher_patch_def hook_trace_def)
  obtain u3 m3 where d3:
    "dispatched (fst (put fetcher_patch fetch_ok ''/x'' options_head)) = [(u3, m3)]"
    by (simp add: put_def dispatched_request fetcher_patch_def hook_trace_def)
  obtain u4 m4 where d4:
    "dispatched (fst (delete fetcher_patch fetch_ok ''/x'' options_head)) = [(u4, m4)]"
    by (simp add: delete_def dispatched_request fetcher_patch_def hook_trace_def)
  have "http_method m1 = Some ''GET''" using vm [of u1 m1] d1 by simp
  moreover have "http_method m2 = Some ''POST''" using vm [of u2 m2] d2 by simp
  moreover have "http_method m3 = Some ''PUT''" using vm [of u3 m3] d3 by simp
  moreover have "http_method m4 = Some ''DELETE''" using vm [of u4 m4] d4 by simp
  ultimately show ?thesis using d1 d2 d3 d4 by simp
qed

section \<open>Errors\<close>



section \<open>Order of the hooks, removal\<close>



section \<open>After-hooks and the outcome\<close>

lemma observes_logging: "observes hook_logging" "observes hook_metrics"
  by (simp_all add: observes_def hook_logging_def hook_metrics_def)

lemma observes_returns: "observes h \<Longrightarrow> returns h"
  by (simp add: observes_def returns_def)

text \<open>Evaluation of a call on the instance without before-hooks.\<close>

lemmas eval_call =
  get_def request_def addAfterHook_def addBeforeHook_def test_fetcher_def fetch_ok_def
  fetch_not_found_def fetch_no_json_def fetch_network_error_def response_ok_def
  response_not_found_def response_no_json_def parse_body_def classify_def
  hook_throwing_def hook_logging_def hook_metrics_def hook_rewriting_def

text \<open>
  C7, as stated, fails: the loop of lines 114-116 has no handler of its own, so what an
  after-hook throws is what the call throws, and the body an after-hook writes into is the
  body the call returns. With the transport answering 200 and \<open>{"value": "12345"}\<close>, the
  call without after-hooks returns that body; with a throwing after-hook it throws the
  hook's error; with a rewriting one it returns the rewritten body.
\<close>

theorem after_hooks_alter_outcome_counterexample:
  "snd (get test_fetcher fetch_ok ''/test'' empty_options)
     = Inr \<lparr> data = JObj [(''value'', JStr ''12345'')], env_status = 200, env_headers = [] \<rparr>
   \<and> snd (get (addAfterHook test_fetcher hook_throwing) fetch_ok ''/test'' empty_options)
     = Inl (NativeError ''hook failed'')
   \<and> snd (get (addAfterHook test_fetcher hook_rewriting) fetch_ok ''/test'' empty_options)
     = Inr \<lparr> data = JObj [(''value'', JStr ''changed'')], env_status = 200, env_headers = [] \<rparr>"
  by (simp add: eval_call)

text \<open>
  C7, amended. When every after-hook only observes (it returns, and leaves the response
  and the parsed body as it received them), the outcome of a call is the outcome of the
  same call on the instance without after-hooks.
\<close>

theorem observing_after_hooks_keep_outcome:
  assumes "call \<in> verbs" and "\<forall>h\<in>set (afterHooks F). observes h"
  shows "snd (call F fetch path options) = snd (call (F\<lparr>afterHooks := []\<rparr>) fetch path options)"
proof -
  from verbs_request [OF assms(1)] obtain m where
    call: "\<And>G. call G fetch path options
             = request G fetch path (options\<lparr>http_method := Some m\<rparr>)"
    by blast
  let ?opts = "options\<lparr>http_method := Some m\<rparr>"
  let ?G = "F\<lparr>afterHooks := []\<rparr>"
  have "snd (request F fetch path ?opts) = snd (request ?G fetch path ?opts)"
  proof (cases rule: request_cases [of F path ?opts fetch])
    case (before_throws t1 e)
    then show ?thesis by (simp add: request_before_throws)
  next
    case (fetch_throws t1 hooked e)
    then show ?thesis by (simp add: request_fetch_throws)
  next
    case (responded t1 hooked res t2 r)
    from responded(3) run_afterHooks_observers [OF assms(2), of res "parse_body res"]
    have r: "r = Inr (res, parse_body res)" by simp
    from responded(1,2) have
      "request ?G fetch path ?opts
         = (t1 @ [FetchCall (baseUrl ?G @ path) (final_options hooked ?opts)] @ [],
            case Inr (res, parse_body res) of
              Inl e \<Rightarrow> Inl e | Inr (res', d) \<Rightarrow> classify res' d)"
      by (intro request_after) simp_all
    with responded(4) r show ?thesis by simp
  qed
  with call show ?thesis by simp
qed

theorem observing_after_hooks_keep_outcome_witness:
  "get \<in> verbs
   \<and> observes hook_logging
   \<and> snd (get (addAfterHook test_fetcher hook_logging) fetch_not_found ''/test'' empty_options)
     = Inl (FetcherError ''Not Found'' 404
              (Some (JObj [(''message'', JStr ''Not found'')])) (Some []))"
proof -
  let ?F = "addAfterHook test_fetcher hook_logging"
  have o: "\<forall>h\<in>set (afterHooks ?F). observes h"
    by (simp add: addAfterHook_def test_fetcher_def observes_logging)
  have "?F\<lparr>afterHooks := []\<rparr> = test_fetcher"
    by (simp add: addAfterHook_def test_fetcher_def)
  with observing_after_hooks_keep_outcome
         [OF get_verb o, of fetch_not_found "''/test''" empty_options]
  have "snd (get ?F fetch_not_found ''/test'' empty_options)
          = snd (get test_fetcher fetch_not_found ''/test'' empty_options)"
    by simp
  also have "\<dots> = Inl (FetcherError ''Not Found'' 404
                       (Some (JObj [(''message'', JStr ''Not found'')])) (Some []))"
    by (simp add: eval_call)
  finally show ?thesis using get_verb observes_logging by simp
qed

text \<open>
  C8, as stated, fails: an after-hook that throws ends the call, and the after-hooks
  registered after it are not invoked. Of the hooks 1 (throwing) and 2 registered in this
  order, a call that gets a response invokes 1 only.
\<close>

theorem after_hooks_not_all_invoked_counterexample:
  "map ah_id (afterHooks (addAfterHook (addAfterHook test_fetcher hook_throwing) hook_logging))
     = [1, 2]
   \<and> after_calls (fst (get (addAfterHook (addAfterHook test_fetcher hook_throwing) hook_logging)
                          fetch_ok ''/test'' empty_options))
     = [1]"
  by (simp add: eval_call)

text \<open>
  C8, amended. In a call that gets a response: when no after-hook throws, every registered
  after-hook is invoked exactly once, in registration order; when the after-hooks only
  observe, the invocations come right after that of the transport, each with the response
  and the parsed body, and the call then returns that body in the envelope if the response
  is ok and throws the \<open>FetcherError\<close> carrying it if not.
\<close>

theorem after_hooks_invoked_in_order:
  assumes "call \<in> verbs"
    and "(url, mo) \<in> set (dispatched (fst (call F fetch path options)))"
    and "fetch url mo = Inr res"
  shows
    "((\<forall>h\<in>set (afterHooks F). returns h)
        \<longrightarrow> after_calls (fst (call F fetch path options)) = map ah_id (afterHooks F))
     \<and> ((\<forall>h\<in>set (afterHooks F). observes h)
        \<longrightarrow> (\<exists>t1. fst (call F fetch path options)
                     = t1 @ [FetchCall url mo]
                         @ map (\<lambda>h. AfterHookCall (ah_id h) res (parse_body res)) (afterHooks F)
                   \<and> dispatched t1 = [] \<and> after_calls t1 = [])
          \<and> (ok res \<longrightarrow> snd (call F fetch path options)
                 = Inr \<lparr> data = parse_body res, env_status = status res,
                         env_headers = res_headers res \<rparr>)
          \<and> (\<not> ok res \<longrightarrow> snd (call F fetch path options)
                 = Inl (FetcherError (statusText res) (status res) (Some (parse_body res))
                          (Some (res_headers res)))))"
proof -
  from verbs_request [OF assms(1)] obtain m where
    call: "call F fetch path options = request F fetch path (options\<lparr>http_method := Some m\<rparr>)"
    by blast
  let ?opts = "options\<lparr>http_method := Some m\<rparr>"
  obtain t2 r where a: "run_afterHooks (afterHooks F) res (parse_body res) = (t2, r)"
    by (cases "run_afterHooks (afterHooks F) res (parse_body res)")
  from assms(2) call have "(url, mo) \<in> set (dispatched (fst (request F fetch path ?opts)))"
    by simp
  from request_responded [OF this assms(3) a] obtain t1 where
    req: "request F fetch path ?opts
            = (t1 @ [FetchCall url mo] @ t2,
               case r of Inl e \<Rightarrow> Inl e | Inr (res', d) \<Rightarrow> classify res' d)"
    and t1: "dispatched t1 = []" "after_calls t1 = []"
    by blast
  have "after_calls (fst (call F fetch path options)) = map ah_id (afterHooks F)"
    if "\<forall>h\<in>set (afterHooks F). returns h"
  proof -
    from run_afterHooks_returns [OF that, of res "parse_body res"] a
    obtain p where "r = Inr p" by auto
    with run_afterHooks_calls [OF a] have "after_calls t2 = map ah_id (afterHooks F)"
      by simp
    with call req t1 show ?thesis by (simp add: after_calls_append)
  qed
  moreover have
    "(\<exists>t1. fst (call F fetch path options)
               = t1 @ [FetchCall url mo]
                   @ map (\<lambda>h. AfterHookCall (ah_id h) res (parse_body res)) (afterHooks F)
             \<and> dispatched t1 = [] \<and> after_calls t1 = [])
     \<and> (ok res \<longrightarrow> snd (call F fetch path options)
           = Inr \<lparr> data = parse_body res, env_status = status res,
                   env_headers = res_headers res \<rparr>)
     \<and> (\<not> ok res \<longrightarrow> snd (call F fetch path options)
           = Inl (FetcherError (statusText res) (status res) (Some (parse_body res))
                    (Some (res_headers res))))"
    if "\<forall>h\<in>set (afterHooks F). observes h"
  proof -
    from run_afterHooks_observers [OF that, of res "parse_body res"] a
    have "t2 = map (\<lambda>h. AfterHookCall (ah_id h) res (parse_body res)) (afterHooks F)"
      and "r = Inr (res, parse_body res)"
      by simp_all
    with call req t1 show ?thesis by (auto simp: classify_def)
  qed
  ultimately show ?thesis by blast
qed

text \<open>Two observing after-hooks, 2 and 4, and a transport that answers 404.\<close>

theorem after_hooks_invoked_in_order_witness:
  "get \<in> verbs
   \<and> returns hook_logging \<and> returns hook_metrics
   \<and> observes hook_logging \<and> observes hook_metrics
   \<and> \<not> ok response_not_found
   \<and> after_calls (fst (get (addAfterHook (addAfterHook test_fetcher hook_logging) hook_metrics)
                          fetch_not_found ''/test'' empty_options))
     = [2, 4]
   \<and> snd (get (addAfterHook (addAfterHook test_fetcher hook_logging) hook_metrics)
             fetch_not_found ''/test'' empty_options)
     = Inl (FetcherError ''Not Found'' 404
              (Some (JObj [(''message'', JStr ''Not found'')])) (Some []))"
proof -
  let ?F = "addAfterHook (addAfterHook test_fetcher hook_logging) hook_metrics"
  have hooks: "afterHooks ?F = [hook_logging, hook_metrics]"
    by (simp add: addAfterHook_def test_fetcher_def)
  have o: "\<forall>h\<in>set (afterHooks ?F). observes h"
    by (simp add: hooks observes_logging)
  then have r: "\<forall>h\<in>set (afterHooks ?F). returns h"
    by (simp add: observes_returns)
  obtain url mo where d:
    "dispatched (fst (get ?F fetch_not_found ''/test'' empty_options)) = [(url, mo)]"
    by (simp add: get_def dispatched_request addAfterHook_def test_fetcher_def)
  then have i: "(url, mo) \<in> set (dispatched (fst (get ?F fetch_not_found ''/test'' empty_options)))"
    by simp
  have f: "fetch_not_found url mo = Inr response_not_found"
    by (simp add: fetch_not_found_def)
  have n: "\<not> ok response_not_found" by (simp add: response_not_found_def)
  note c8 = after_hooks_invoked_in_order [OF get_verb i f]
  from c8 r have "after_calls (fst (get ?F fetch_not_found ''/test'' empty_options))
                    = map ah_id (afterHooks ?F)"
    by blast
  with hooks have "after_calls (fst (get ?F fetch_not_found ''/test'' empty_options))
                     = map ah_id [hook_logging, hook_metrics]"
    by simp
  then have w1: "after_calls (fst (get ?F fetch_not_found ''/test'' empty_options)) = [2, 4]"
    by (simp add: hook_logging_def hook_metrics_def)
  from c8 o n have "snd (get ?F fetch_not_found ''/test'' empty_options)
      = Inl (FetcherError (statusText response_not_found) (status response_not_found)
               (Some (parse_body response_not_found)) (Some (res_headers response_not_found)))"
    by blast
  then have w2: "snd (get ?F fetch_not_found ''/test'' empty_options)
      = Inl (FetcherError ''Not Found'' 404
               (Some (JObj [(''message'', JStr ''Not found'')])) (Some []))"
    by (simp add: response_not_found_def parse_body_def)
  from get_verb observes_logging observes_returns [OF observes_logging(1)]
    observes_returns [OF observes_logging(2)] n w1 w2
  show ?thesis by simp
qed

section \<open>Classification of the response\<close>

text \<open>
  C2, as stated, fails: between the response and its classification stand the after-hooks
  (lines 114-116), and what one of them throws is thrown in place of the \<open>FetcherError\<close>.
  The transport answers 404, the after-hook throws, and the call throws the hook's error,
  of which \<open>parseError\<close> makes nothing.
\<close>

theorem not_ok_without_fetcher_error_counterexample:
  "\<not> ok response_not_found
   \<and> snd (get (addAfterHook test_fetcher hook_throwing) fetch_not_found ''/test'' empty_options)
     = Inl (NativeError ''hook failed'')
   \<and> parseError (NativeError ''hook failed'') = None"
  by (simp add: eval_call parseError_def)

text \<open>
  C2, amended. In a call that gets a response and whose after-hooks all return, leaving
  the response as \<open>res'\<close> and the parsed body as \<open>d\<close>: if \<open>res'\<close> is not ok, the call
  throws the \<open>FetcherError\<close> with the status text, status and headers of \<open>res'\<close> and the
  data \<open>d\<close>; if it is ok, the call returns the envelope of \<open>d\<close> and the status and
  headers of \<open>res'\<close>; \<open>parseError\<close> of that \<open>FetcherError\<close> is the plain record of its four
  fields. When the after-hooks only observe, \<open>res'\<close> is the response of the transport and
  \<open>d\<close> the body as parsed.
\<close>

theorem response_classified:
  assumes "call \<in> verbs"
    and "(url, mo) \<in> set (dispatched (fst (call F fetch path options)))"
    and "fetch url mo = Inr res"
    and "run_afterHooks (afterHooks F) res (parse_body res) = (t, Inr (res', d))"
  shows
    "(\<not> ok res' \<longrightarrow> snd (call F fetch path options)
        = Inl (FetcherError (statusText res') (status res') (Some d) (Some (res_headers res'))))
     \<and> (ok res' \<longrightarrow> snd (call F fetch path options)
        = Inr \<lparr> data = d, env_status = status res', env_headers = res_headers res' \<rparr>)
     \<and> parseError (FetcherError (statusText res') (status res') (Some d)
                     (Some (res_headers res')))
        = Some \<lparr> pe_message = statusText res', pe_status = status res',
                  pe_data = Some d, pe_headers = Some (res_headers res') \<rparr>
     \<and> ((\<forall>h\<in>set (afterHooks F). observes h) \<longrightarrow> res' = res \<and> d = parse_body res)"
proof -
  from verbs_request [OF assms(1)] obtain m where
    call: "call F fetch path options = request F fetch path (options\<lparr>http_method := Some m\<rparr>)"
    by blast
  let ?opts = "options\<lparr>http_method := Some m\<rparr>"
  from assms(2) call have "(url, mo) \<in> set (dispatched (fst (request F fetch path ?opts)))"
    by simp
  from request_responded [OF this assms(3) assms(4)] obtain t1 where
    "request F fetch path ?opts
       = (t1 @ [FetchCall url mo] @ t,
          case Inr (res', d) of Inl e \<Rightarrow> Inl e | Inr (r, b) \<Rightarrow> classify r b)"
    by blast
  with call have out: "snd (call F fetch path options) = classify res' d"
    by simp
  have "res' = res \<and> d = parse_body res" if "\<forall>h\<in>set (afterHooks F). observes h"
    using run_afterHooks_observers [OF that, of res "parse_body res"] assms(4) by simp
  with out show ?thesis by (simp add: classify_def parseError_def)
qed

text \<open>A 404 and a 200, each with one observing after-hook.\<close>

theorem response_classified_witness:
  "get \<in> verbs \<and> observes hook_logging
   \<and> \<not> ok response_not_found \<and> ok response_ok
   \<and> snd (get (addAfterHook test_fetcher hook_logging) fetch_not_found ''/test'' empty_options)
     = Inl (FetcherError ''Not Found'' 404
              (Some (JObj [(''message'', JStr ''Not found'')])) (Some []))
   \<and> parseError (FetcherError ''Not Found'' 404
                   (Some (JObj [(''message'', JStr ''Not found'')])) (Some []))
     = Some \<lparr> pe_message = ''Not Found'', pe_status = 404,
               pe_data = Some (JObj [(''message'', JStr ''Not found'')]),
               pe_headers = Some [] \<rparr>
   \<and> snd (get (addAfterHook test_fetcher hook_logging) fetch_ok ''/test'' empty_options)
     = Inr \<lparr> data = JObj [(''value'', JStr ''12345'')], env_status = 200, env_headers = [] \<rparr>"
proof -
  let ?F = "addAfterHook test_fetcher hook_logging"
  have hooks: "afterHooks ?F = [hook_logging]"
    by (simp add: addAfterHook_def test_fetcher_def)
  have run: "run_afterHooks (afterHooks ?F) res (parse_body res)
               = ([AfterHookCall 2 res (parse_body res)], Inr (res, parse_body res))" for res
    by (simp add: hooks) (simp add: hook_logging_def)
  have n: "\<not> ok response_not_found" and y: "ok response_ok"
    by (simp_all add: response_not_found_def response_ok_def)
  obtain u1 m1 where d1:
    "dispatched (fst (get ?F fetch_not_found ''/test'' empty_options)) = [(u1, m1)]"
    by (simp add: get_def dispatched_request addAfterHook_def test_fetcher_def)
  obtain u2 m2 where d2:
    "dispatched (fst (get ?F fetch_ok ''/test'' empty_options)) = [(u2, m2)]"
    by (simp add: get_def dispatched_request addAfterHook_def test_fetcher_def)
  have i1: "(u1, m1) \<in> set (dispatched (fst (get ?F fetch_not_found ''/test'' empty_options)))"
    using d1 by simp
  have i2: "(u2, m2) \<in> set (dispatched (fst (get ?F fetch_ok ''/test'' empty_options)))"
    using d2 by simp
  have f1: "fetch_not_found u1 m1 = Inr response_not_found"
    by (simp add: fetch_not_found_def)
  have f2: "fetch_ok u2 m2 = Inr response_ok"
    by (simp add: fetch_ok_def)
  note c1 = response_classified [OF get_verb i1 f1 run]
  note c2 = response_classified [OF get_verb i2 f2 run]
  from c1 n have "snd (get ?F fetch_not_found ''/test'' empty_options)
      = Inl (FetcherError (statusText response_not_found) (status response_not_found)
               (Some (parse_body response_not_found)) (Some (res_headers response_not_found)))"
    by blast
  then have w1: "snd (get ?F fetch_not_found ''/test'' empty_options)
      = Inl (FetcherError ''Not Found'' 404
               (Some (JObj [(''message'', JStr ''Not found'')])) (Some []))"
    by (simp add: response_not_found_def parse_body_def)
  from c1 have "parseError (FetcherError (statusText response_not_found)
                   (status response_not_found) (Some (parse_body response_not_found))
                   (Some (res_headers response_not_found)))
      = Some \<lparr> pe_message = statusText response_not_found,
                pe_status = status response_not_found,
                pe_data = Some (parse_body response_not_found),
                pe_headers = Some (res_headers response_not_found) \<rparr>"
    by blast
  then have w2: "parseError (FetcherError ''Not Found'' 404
                   (Some (JObj [(''message'', JStr ''Not found'')])) (Some []))
     = Some \<lparr> pe_message = ''Not Found'', pe_status = 404,
               pe_data = Some (JObj [(''message'', JStr ''Not found'')]),
               pe_headers = Some [] \<rparr>"
    by (simp add: response_not_found_def parse_body_def)
  from c2 y have "snd (get ?F fetch_ok ''/test'' empty_options)
      = Inr \<lparr> data = parse_body response_ok, env_status = status response_ok,
              env_headers = res_headers response_ok \<rparr>"
    by blast
  then have w3: "snd (get ?F fetch_ok ''/test'' empty_options)
      = Inr \<lparr> data = JObj [(''value'', JStr ''12345'')], env_status = 200, env_headers = [] \<rparr>"
    by (simp add: response_ok_def parse_body_def)
  from get_verb observes_logging(1) n y w1 w2 w3 show ?thesis by simp
qed

text \<open>
  C4, as stated, fails for the same reason: the response is ok, its body is not JSON, the
  after-hook throws, and the call throws.
\<close>

theorem unparseable_body_call_throws_counterexample:
  "ok response_no_json
   \<and> json response_no_json = Inl (NativeError ''Unexpected end of JSON input'')
   \<and> snd (get (addAfterHook test_fetcher hook_throwing) fetch_no_json ''/test'' empty_options)
     = Inl (NativeError ''hook failed'')"
  by (simp add: eval_call)

text \<open>
  C4, amended. In a call whose response has a body that does not parse as JSON and whose
  after-hooks all return, the parsed body is \<open>null\<close> and stays \<open>null\<close>, and when the
  response is ok as the after-hooks leave it, the call returns the envelope with data
  \<open>null\<close> and the status and headers of the response. When the after-hooks only observe,
  the response is as the transport returned it.
\<close>

theorem unparseable_body_is_null:
  assumes "call \<in> verbs"
    and "(url, mo) \<in> set (dispatched (fst (call F fetch path options)))"
    and "fetch url mo = Inr res" and "json res = Inl e"
    and "run_afterHooks (afterHooks F) res JNull = (t, Inr (res', d))"
  shows
    "d = JNull
     \<and> (ok res' \<longrightarrow> snd (call F fetch path options)
        = Inr \<lparr> data = JNull, env_status = status res', env_headers = res_headers res' \<rparr>)
     \<and> ((\<forall>h\<in>set (afterHooks F). observes h) \<longrightarrow> res' = res)"
proof -
  from verbs_request [OF assms(1)] obtain m where
    call: "call F fetch path options = request F fetch path (options\<lparr>http_method := Some m\<rparr>)"
    by blast
  let ?opts = "options\<lparr>http_method := Some m\<rparr>"
  from assms(4) have pb: "parse_body res = JNull" by (simp add: parse_body_def)
  from assms(2) call have i: "(url, mo) \<in> set (dispatched (fst (request F fetch path ?opts)))"
    by simp
  from assms(5) pb have a: "run_afterHooks (afterHooks F) res (parse_body res) = (t, Inr (res', d))"
    by simp
  from request_responded [OF i assms(3) a] obtain t1 where
    "request F fetch path ?opts
       = (t1 @ [FetchCall url mo] @ t,
          case Inr (res', d) of Inl e \<Rightarrow> Inl e | Inr (r, b) \<Rightarrow> classify r b)"
    by blast
  with call have out: "snd (call F fetch path options) = classify res' d"
    by simp
  have d: "d = JNull"
    using run_afterHooks_primitive [OF _ assms(5)] by simp
  have "res' = res" if "\<forall>h\<in>set (afterHooks F). observes h"
    using run_afterHooks_observers [OF that, of res JNull] assms(5) by simp
  with out d show ?thesis by (simp add: classify_def)
qed

theorem unparseable_body_is_null_witness:
  "get \<in> verbs \<and> observes hook_logging \<and> ok response_no_json
   \<and> json response_no_json = Inl (NativeError ''Unexpected end of JSON input'')
   \<and> snd (get (addAfterHook test_fetcher hook_logging) fetch_no_json ''/test'' empty_options)
     = Inr \<lparr> data = JNull, env_status = 200, env_headers = [] \<rparr>"
proof -
  let ?F = "addAfterHook test_fetcher hook_logging"
  have run: "run_afterHooks (afterHooks ?F) response_no_json JNull
               = ([AfterHookCall 2 response_no_json JNull], Inr (response_no_json, JNull))"
    by (simp add: addAfterHook_def test_fetcher_def hook_logging_def)
  have y: "ok response_no_json"
    and j: "json response_no_json = Inl (NativeError ''Unexpected end of JSON input'')"
    by (simp_all add: response_no_json_def)
  obtain url mo where d:
    "dispatched (fst (get ?F fetch_no_json ''/test'' empty_options)) = [(url, mo)]"
    by (simp add: get_def dispatched_request addAfterHook_def test_fetcher_def)
  then have i: "(url, mo) \<in> set (dispatched (fst (get ?F fetch_no_json ''/test'' empty_options)))"
    by simp
  have f: "fetch_no_json url mo = Inr response_no_json"
    by (simp add: fetch_no_json_def)
  from unparseable_body_is_null [OF get_verb i f j run] y
  have "snd (get ?F fetch_no_json ''/test'' empty_options)
      = Inr \<lparr> data = JNull, env_status = status response_no_json,
              env_headers = res_headers response_no_json \<rparr>"
    by blast
  then have "snd (get ?F fetch_no_json ''/test'' empty_options)
      = Inr \<lparr> data = JNull, env_status = 200, env_headers = [] \<rparr>"
    by (simp add: response_no_json_def)
  with get_verb observes_logging(1) y j show ?thesis by simp
qed

section \<open>Letter case of header keys\<close>

text \<open>
  C6, as stated, fails: the merge is the object spread of lines 95-99 and 106-109, which
  compares keys as strings. With the default headers \<open>{"content-type": "text/plain"}\<close> the
  options passed to the transport hold \<open>Content-Type\<close> (the injected default) and
  \<open>content-type\<close> side by side; with a hook writing \<open>Content-Type\<close> and per-call headers
  writing \<open>content-type\<close> they hold both as well. In either case the two keys are one
  header name when letter case is ignored.
\<close>

theorem header_keys_case_sensitive_counterexample:
  "ascii_lower ''Content-Type'' = ascii_lower ''content-type''
   \<and> dispatched_header (fst (get fetcher_lower fetch_ok ''/x'' empty_options)) ''Content-Type''
     = [Some ''application/json'']
   \<and> dispatched_header (fst (get fetcher_lower fetch_ok ''/x'' empty_options)) ''content-type''
     = [Some ''text/plain'']
   \<and> dispatched_header
       (fst (get (addBeforeHook test_fetcher hook_form_encoded) fetch_ok ''/x'' options_lower))
       ''Content-Type''
     = [Some ''application/x-www-form-urlencoded'']
   \<and> dispatched_header
       (fst (get (addBeforeHook test_fetcher hook_form_encoded) fetch_ok ''/x'' options_lower))
       ''content-type''
     = [Some ''text/plain'']"
  by (simp add: ascii_lower_def lower_char_def dispatched_header_def get_def
        dispatched_request fetcher_lower_def test_fetcher_def addBeforeHook_def
        hook_form_encoded_def options_lower_def empty_options_def header_of_def
        final_options_def initial_options_def spread_options_def default_content_type_def)

text \<open>
  C6, amended. Keys are compared as strings, letter case included. In the options passed
  to the transport, the entry of a key \<open>k\<close> is the value of the last layer that wrote that
  very string: the per-call headers; else the last before-hook that sets \<open>k\<close> (the hooks
  after it leaving \<open>k\<close> alone); else, when every before-hook leaves \<open>k\<close> alone, the
  instance default headers; else \<open>application/json\<close> if \<open>k\<close> is \<open>Content-Type\<close>; else there
  is no entry.
\<close>

theorem header_keys_exact:
  assumes "call \<in> verbs"
    and "(url, mo) \<in> set (dispatched (fst (call F fetch path options)))"
  shows
    "((\<forall>h\<in>set (beforeHooks F). keeps_header h k)
        \<longrightarrow> header_of mo k =
             (case header_of options k of
                Some v \<Rightarrow> Some v
              | None \<Rightarrow>
                  (case header_of (defaultOptions F) k of
                     Some v \<Rightarrow> Some v
                   | None \<Rightarrow>
                       if k = ''Content-Type'' then Some ''application/json'' else None)))
     \<and> (beforeHooks F = hs1 @ h # hs2 \<and> sets_header h k w
          \<and> (\<forall>h'\<in>set hs2. keeps_header h' k)
        \<longrightarrow> header_of mo k =
             (case header_of options k of Some v \<Rightarrow> Some v | None \<Rightarrow> Some w))"
proof -
  from verbs_request [OF assms(1)] obtain m where
    call: "call F fetch path options = request F fetch path (options\<lparr>http_method := Some m\<rparr>)"
    by blast
  let ?opts = "options\<lparr>http_method := Some m\<rparr>"
  from assms(2) call obtain t1 hooked where
    run: "run_beforeHooks (beforeHooks F) (baseUrl F @ path) (initial_options F ?opts)
            = (t1, Inr hooked)"
    and mo: "mo = final_options hooked ?opts"
    by (auto elim: dispatched_requestD)
  have final: "header_of mo k =
      (case header_of options k of Some x \<Rightarrow> Some x | None \<Rightarrow> header_of hooked k)"
    using mo by (simp add: header_of_final)
  have "header_of mo k =
          (case header_of options k of
             Some v \<Rightarrow> Some v
           | None \<Rightarrow>
               (case header_of (defaultOptions F) k of
                  Some v \<Rightarrow> Some v
                | None \<Rightarrow> if k = ''Content-Type'' then Some ''application/json'' else None))"
    if "\<forall>h\<in>set (beforeHooks F). keeps_header h k"
  proof -
    have kept: "header_of hooked k = header_of (initial_options F ?opts) k"
      using run_beforeHooks_keeps_header [OF that run] .
    show ?thesis
      unfolding final kept header_of_initial header_of_method_update
      by (cases "header_of options k") simp_all
  qed
  moreover have "header_of mo k =
          (case header_of options k of Some v \<Rightarrow> Some v | None \<Rightarrow> Some w)"
    if "beforeHooks F = hs1 @ h # hs2" and "sets_header h k w"
      and "\<forall>h'\<in>set hs2. keeps_header h' k"
  proof -
    from run that(1) have
      "run_beforeHooks (hs1 @ h # hs2) (baseUrl F @ path) (initial_options F ?opts)
         = (t1, Inr hooked)"
      by simp
    from run_beforeHooks_sets_header [OF that(2) that(3) this] final
    show ?thesis by (cases "header_of options k") simp_all
  qed
  ultimately show ?thesis by blast
qed

text \<open>
  The two calls above: each of the two spellings has the value of its own last writer.
\<close>

theorem header_keys_exact_witness:
  "dispatched_header (fst (get fetcher_lower fetch_ok ''/x'' empty_options)) ''Content-Type''
     = [Some ''application/json'']
   \<and> dispatched_header (fst (get fetcher_lower fetch_ok ''/x'' empty_options)) ''content-type''
     = [Some ''text/plain'']
   \<and> dispatched_header
       (fst (get (addBeforeHook test_fetcher hook_form_encoded) fetch_ok ''/x'' options_lower))
       ''Content-Type''
     = [Some ''application/x-www-form-urlencoded'']"
proof -
  let ?F = "addBeforeHook test_fetcher hook_form_encoded"
  let ?d1 = "dispatched (fst (get fetcher_lower fetch_ok ''/x'' empty_options))"
  let ?d2 = "dispatched (fst (get ?F fetch_ok ''/x'' options_lower))"
  obtain u1 m1 where d1: "?d1 = [(u1, m1)]"
    by (simp add: get_def dispatched_request fetcher_lower_def)
  obtain u2 m2 where d2: "?d2 = [(u2, m2)]"
    by (simp add: get_def dispatched_request addBeforeHook_def test_fetcher_def
                  hook_form_encoded_def)
  have i1: "(u1, m1) \<in> set ?d1" and i2: "(u2, m2) \<in> set ?d2"
    using d1 d2 by simp_all
  have k1: "\<forall>h\<in>set (beforeHooks fetcher_lower). keeps_header h k" for k
    by (simp add: fetcher_lower_def)
  have e: "header_of empty_options k = None" for k
    by (simp add: header_of_def empty_options_def)
  have l: "header_of options_lower ''Content-Type'' = None"
    by (simp add: header_of_def options_lower_def)
  have dl: "header_of (defaultOptions fetcher_lower) ''Content-Type'' = None"
    "header_of (defaultOptions fetcher_lower) ''content-type'' = Some ''text/plain''"
    by (simp_all add: header_of_def fetcher_lower_def)
  have hs: "beforeHooks ?F = [] @ hook_form_encoded # []"
    by (simp add: addBeforeHook_def test_fetcher_def)
  have "header_of m1 ''Content-Type'' = Some ''application/json''"
    using header_keys_exact [OF get_verb i1, of "''Content-Type''"] k1 e dl by simp
  moreover have "header_of m1 ''content-type'' = Some ''text/plain''"
    using header_keys_exact [OF get_verb i1, of "''content-type''"] k1 e dl by simp
  moreover have "header_of m2 ''Content-Type'' = Some ''application/x-www-form-urlencoded''"
    using header_keys_exact [OF get_verb i2, of "''Content-Type''" "[]" hook_form_encoded "[]"
            "''application/x-www-form-urlencoded''"] hs hook_form_encoded_sets l
    by simp
  ultimately show ?thesis using d1 d2 by (simp add: dispatched_header_def)
qed

end
